theory Spec2Isabelle
  imports Complex_Main
begin

section \<open>The CEP lookup client of src/utils/cepAPI.js\<close>

text \<open>
  The module exports one class, \<open>CepAPI\<close>, and a default instance of it. Its methods
  read and write three things outside themselves: the network (through \<open>fetch\<close>), the
  page (through \<open>document.getElementById\<close> and the properties of the elements found) and
  the console. The model passes the page and a trace of the effects performed as an
  explicit state, takes the network as a parameter, and returns every thrown error as the
  left summand of the result.
\<close>

subsection \<open>Strings and the three regular expressions\<close>

text \<open>
  A JavaScript string is a sequence of code units; one \<open>char\<close> of the model stands for
  one code unit. None of the regular expressions carries the \<open>u\<close> flag, so \<open>\d\<close> is one
  code unit among \<open>0\<close> .. \<open>9\<close> and \<open>\D\<close> is any other code unit.
\<close>

definition digit :: "char \<Rightarrow> bool" where
  "digit c = (c \<in> set ''0123456789'')"

text \<open>\<open>s.replace(/\D/g, '')\<close>: every code unit that is not a digit is removed.\<close>

definition remove_non_digits :: "string \<Rightarrow> string" where
  "remove_non_digits s = filter digit s"

text \<open>
  \<open>s.replace(/(\d{5})(\d{3})/, '$1-$2')\<close>: the expression is not anchored and has no
  \<open>g\<close> flag, so the leftmost place where eight digits stand in a row is rewritten (five
  digits, a hyphen, three digits) and everything before and after it is kept. Without
  such a place the string is returned as it is.
\<close>

fun replace_5_3 :: "string \<Rightarrow> string" where
  "replace_5_3 [] = []"
| "replace_5_3 (c # cs) =
     (if 8 \<le> length (c # cs) \<and> list_all digit (take 8 (c # cs))
      then take 5 (c # cs) @ ''-'' @ take 3 (drop 5 (c # cs)) @ drop 8 (c # cs)
      else c # replace_5_3 cs)"

text \<open>\<open>/^\d{8}$/.test(s)\<close>: the whole string is eight digits.\<close>

definition test_8_digits :: "string \<Rightarrow> bool" where
  "test_8_digits s = (length s = 8 \<and> list_all digit s)"

text \<open>The decimal numeral of a number, as a template literal prints it.\<close>

fun show_nat :: "nat \<Rightarrow> string" where
  "show_nat n =
     (if n < 10 then [char_of (48 + n)]
      else show_nat (n div 10) @ [char_of (48 + n mod 10)])"

subsection \<open>Values and errors\<close>

text \<open>
  What \<open>response.json()\<close> can decode to, \<open>undefined\<close> for a property that is not
  there, and \<open>JInherited k\<close> for what a read of the key \<open>k\<close> finds on the prototype
  chain when the value has no property of its own under \<open>k\<close>: a built-in function, or
  for \<open>__proto__\<close> the prototype object. An object is a plain object (the prototype is
  \<open>Object.prototype\<close>), given as the list of its own properties in the order they were
  created; the first entry of a key is the property.
\<close>

datatype jsval =
    JUndefined
  | JNull
  | JBool bool
  | JNum rat
  | JStr string
  | JArr "jsval list"
  | JObj "(string \<times> jsval) list"
  | JInherited string

datatype js_error =
    Error string
  | TypeError string
  | SyntaxError string
  | DOMException string

fun message :: "js_error \<Rightarrow> string" where
  "message (Error m) = m"
| "message (TypeError m) = m"
| "message (SyntaxError m) = m"
| "message (DOMException m) = m"

text \<open>The conversion to a boolean that \<open>if\<close> and \<open>&&\<close> apply.\<close>

fun truthy :: "jsval \<Rightarrow> bool" where
  "truthy JUndefined = False"
| "truthy JNull = False"
| "truthy (JBool b) = b"
| "truthy (JNum x) = (x \<noteq> 0)"
| "truthy (JStr s) = (s \<noteq> [])"
| "truthy (JArr xs) = True"
| "truthy (JObj ps) = True"
| "truthy (JInherited k) = True"

text \<open>
  A property key that is an array index: the canonical numeral of a number below
  \<open>2^32 - 1\<close>. Such keys come first, in ascending order, when the keys of an object are
  listed.
\<close>

definition nat_of_digits :: "string \<Rightarrow> nat" where
  "nat_of_digits s = foldl (\<lambda>n c. 10 * n + (of_char c - 48)) 0 s"

definition array_index :: "string \<Rightarrow> nat option" where
  "array_index k =
     (if k \<noteq> [] \<and> list_all digit k \<and> (k = ''0'' \<or> hd k \<noteq> CHR ''0'')
         \<and> nat_of_digits k < 2 ^ 32 - 1
      then Some (nat_of_digits k) else None)"

text \<open>
  The properties of \<open>Object.prototype\<close>, which every value but \<open>undefined\<close> and
  \<open>null\<close> inherits: a read of one of these keys finds a function (for \<open>__proto__\<close>,
  the prototype), whatever the value is.
\<close>

definition Object_prototype_keys :: "string list" where
  "Object_prototype_keys =
     [''constructor'', ''__defineGetter__'', ''__defineSetter__'', ''hasOwnProperty'',
      ''__lookupGetter__'', ''__lookupSetter__'', ''isPrototypeOf'', ''propertyIsEnumerable'',
      ''toString'', ''valueOf'', ''__proto__'', ''toLocaleString'']"

definition inherited :: "string \<Rightarrow> jsval" where
  "inherited k = (if k \<in> set Object_prototype_keys then JInherited k else JUndefined)"

text \<open>
  \<open>v[k]\<close>: reading a property of \<open>undefined\<close> or \<open>null\<close> throws (the message is the
  engine's); on any other value the own property is read, and without one the inherited
  one. For a string, an array, a number, a boolean or a built-in, the further methods of
  its own prototype (\<open>String.prototype\<close> and the like) are not modelled.
\<close>

fun get_property :: "jsval \<Rightarrow> string \<Rightarrow> js_error + jsval" where
  "get_property JUndefined k =
     Inl (TypeError (''Cannot read properties of undefined (reading '' @ [CHR 0x27] @ k
            @ [CHR 0x27] @ '')''))"
| "get_property JNull k =
     Inl (TypeError (''Cannot read properties of null (reading '' @ [CHR 0x27] @ k
            @ [CHR 0x27] @ '')''))"
| "get_property (JObj ps) k =
     Inr (case map_of ps k of None \<Rightarrow> inherited k | Some v \<Rightarrow> v)"
| "get_property (JStr s) k =
     Inr (if k = ''length'' then JNum (of_nat (length s))
          else case array_index k of
                 None \<Rightarrow> inherited k
               | Some i \<Rightarrow> if i < length s then JStr [s ! i] else JUndefined)"
| "get_property (JArr xs) k =
     Inr (if k = ''length'' then JNum (of_nat (length xs))
          else case array_index k of
                 None \<Rightarrow> inherited k
               | Some i \<Rightarrow> if i < length xs then xs ! i else JUndefined)"
| "get_property (JBool b) k = Inr (inherited k)"
| "get_property (JNum x) k = Inr (inherited k)"
| "get_property (JInherited n) k = Inr (inherited k)"

subsection \<open>Objects used as mappings\<close>

text \<open>
  \<open>Object.keys(o)\<close>: the array-index keys in ascending numeric order, then the other
  keys in the order of their creation.
\<close>

definition own_keys :: "(string \<times> 'a) list \<Rightarrow> string list" where
  "own_keys ps =
     (let ks = map fst ps
      in sort_key nat_of_digits (filter (\<lambda>k. array_index k \<noteq> None) ks)
         @ filter (\<lambda>k. array_index k = None) ks)"

text \<open>\<open>o[k] = v\<close> on a plain object: an existing property keeps its place.\<close>

fun set_property :: "string \<Rightarrow> 'a \<Rightarrow> (string \<times> 'a) list \<Rightarrow> (string \<times> 'a) list" where
  "set_property k v [] = [(k, v)]"
| "set_property k v (p # ps) =
     (if fst p = k then (k, v) # ps else p # set_property k v ps)"

text \<open>
  \<open>{ ...a, ...b }\<close>: the properties of \<open>a\<close>, then those of \<open>b\<close> copied over them in the
  order of \<open>b\<close>'s keys.
\<close>

fun copy_properties :: "(string \<times> 'a) list \<Rightarrow> string list \<Rightarrow> (string \<times> 'a) list \<Rightarrow> (string \<times> 'a) list" where
  "copy_properties b [] acc = acc"
| "copy_properties b (k # ks) acc =
     copy_properties b ks
       (case map_of b k of None \<Rightarrow> acc | Some v \<Rightarrow> set_property k v acc)"

definition spread :: "(string \<times> 'a) list \<Rightarrow> (string \<times> 'a) list \<Rightarrow> (string \<times> 'a) list" where
  "spread a b = copy_properties b (own_keys b) (copy_properties a (own_keys a) [])"

subsection \<open>The page, the network and the trace of effects\<close>

text \<open>
  An element of the page, by the properties the class reads or writes: \<open>value\<close>,
  \<open>textContent\<close>, \<open>className\<close>, \<open>style.display\<close> and \<open>style.fontSize\<close>. The
  \<open>value\<close> holds what was assigned to it; the conversion to text that an input control
  applies on assignment is not modelled.
\<close>

record element =
  el_value :: jsval
  el_textContent :: string
  el_className :: string
  el_display :: string
  el_fontSize :: string

text \<open>
  An HTTP response, by what \<open>buscarCep\<close> reads of it: \<open>ok\<close>, \<open>status\<close> and the outcome
  of \<open>json()\<close>. A call of \<open>fetch\<close> is rejected with an error or fulfilled with a response.
\<close>

record response =
  ok :: bool
  status :: nat
  json :: "js_error + jsval"

datatype fetch_outcome = Rejected js_error | Fulfilled response

type_synonym network = "string \<Rightarrow> fetch_outcome"

text \<open>
  The caller's callback object: each of \<open>success\<close> and \<open>error\<close> is absent (or not a
  function) or a function. A call of the function returns normally (\<open>None\<close>) or throws.
  What the function does to the page is the caller's business; the trace records that it
  was called, and with what.
\<close>

record callback =
  cb_success :: "(jsval \<Rightarrow> js_error option) option"
  cb_error :: "(js_error \<Rightarrow> js_error option) option"

datatype event =
    Fetch string
  | ConsoleError string js_error
  | SetValue string jsval
  | CallSuccess jsval
  | CallError js_error
  | SetTimeout nat

text \<open>
  The state: \<open>document\<close> maps an id to the first element of the page that has it,
  \<open>trace\<close> lists the effects in the order they happened.
\<close>

record world =
  document :: "string \<rightharpoonup> element"
  trace :: "event list"

definition emit :: "event \<Rightarrow> world \<Rightarrow> world" where
  "emit ev w = w\<lparr>trace := trace w @ [ev]\<rparr>"

text \<open>\<open>document.getElementById(id)\<close>: no element is found under the empty id.\<close>

definition getElementById :: "world \<Rightarrow> string \<Rightarrow> element option" where
  "getElementById w i = (if i = [] then None else document w i)"

text \<open>\<open>elemento.value = v\<close> on the element found under id \<open>i\<close>.\<close>

definition assign_value :: "string \<Rightarrow> element \<Rightarrow> jsval \<Rightarrow> world \<Rightarrow> world" where
  "assign_value i elemento v w =
     emit (SetValue i v) (w\<lparr>document := (document w)(i \<mapsto> elemento\<lparr>el_value := v\<rparr>)\<rparr>)"

text \<open>The element \<open>document.createElement('div')\<close> returns.\<close>

definition createElement_div :: element where
  "createElement_div =
     \<lparr>el_value = JUndefined, el_textContent = [], el_className = [],
      el_display = [], el_fontSize = []\<rparr>"

subsection \<open>The class CepAPI\<close>

definition baseURL :: string where
  "baseURL = ''https://brasilapi.com.br/api/cep/v1''"

text \<open>
  The members the class body defines. The block comment opened on line 42 has no end of
  its own: it runs to the \<open>*/\<close> of line 54 and takes the text of lines 46 to 48,
  \<open>validarCep(cep) { return /^\d{8}$/.test(cep); }\<close>, with it. So the class has no
  member \<open>validarCep\<close>.
\<close>

definition CepAPI_members :: "string list" where
  "CepAPI_members =
     [''constructor'', ''buscarCep'', ''formatarCep'', ''preencherEndereco'',
      ''buscarEPreencher'', ''mostrarErro'', ''removerErro'']"

text \<open>What the text of lines 46 to 48 would compute, were it code.\<close>

definition validarCep_in_comment :: "string \<Rightarrow> bool" where
  "validarCep_in_comment cep = test_8_digits cep"

text \<open>
  The call \<open>this.validarCep(cep)\<close> on an instance of the class: the property is looked
  up among the members, and calling what is not there throws a \<open>TypeError\<close> (the message
  is the engine's).
\<close>

definition validarCep :: "string \<Rightarrow> js_error + bool" where
  "validarCep cep =
     (if ''validarCep'' \<in> set CepAPI_members then Inr (validarCep_in_comment cep)
      else Inl (TypeError ''this.validarCep is not a function''))"

text \<open>The body of the \<open>try\<close> block of \<open>buscarCep\<close>, lines 15 to 34.\<close>

definition buscarCep_try :: "network \<Rightarrow> string \<Rightarrow> world \<Rightarrow> (js_error + jsval) \<times> world" where
  "buscarCep_try fetch cep w =
     (let cepLimpo = remove_non_digits cep
      in case validarCep cepLimpo of
           Inl e \<Rightarrow> (Inl e, w)
         | Inr valido \<Rightarrow>
             if \<not> valido then (Inl (Error (''CEP deve ter 8 d'' @ [CHR 0xED] @ ''gitos'')), w)
             else
               (let url = baseURL @ ''/'' @ cepLimpo;
                    w1 = emit (Fetch url) w
                in (case fetch url of
                      Rejected e \<Rightarrow> (Inl e, w1)
                    | Fulfilled response \<Rightarrow>
                        if \<not> ok response then
                          (if status response = 404
                           then (Inl (Error (''CEP n'' @ [CHR 0xE3] @ ''o encontrado'')), w1)
                           else (Inl (Error (''Erro na API: '' @ show_nat (status response))), w1))
                        else
                          (case json response of
                             Inl e \<Rightarrow> (Inl e, w1)
                           | Inr dados \<Rightarrow> (Inr dados, w1)))))"

text \<open>\<open>buscarCep\<close>: the \<open>catch\<close> block logs whatever was thrown and throws it again.\<close>

definition buscarCep :: "network \<Rightarrow> string \<Rightarrow> world \<Rightarrow> (js_error + jsval) \<times> world" where
  "buscarCep fetch cep w =
     (case buscarCep_try fetch cep w of
        (Inl error, w') \<Rightarrow> (Inl error, emit (ConsoleError ''Erro ao buscar CEP:'' error) w')
      | (Inr dados, w') \<Rightarrow> (Inr dados, w'))"

definition formatarCep :: "string \<Rightarrow> string" where
  "formatarCep cep = (let cepLimpo = remove_non_digits cep in replace_5_3 cepLimpo)"

definition camposPadrao :: "(string \<times> string) list" where
  "camposPadrao =
     [(''cidade'', ''cidade''), (''bairro'', ''bairro''), (''rua'', ''rua''),
      (''estado'', ''estado''), (''cep'', ''cep'')]"

text \<open>
  \<open>camposFinais[campo]\<close> as the argument of \<open>getElementById\<close>: a property that is not
  there reads \<open>undefined\<close>, which is looked up as the text \<open>undefined\<close>.
\<close>

definition alvo_of :: "(string \<times> string) list \<Rightarrow> string \<Rightarrow> string" where
  "alvo_of camposFinais campo =
     (case map_of camposFinais campo of None \<Rightarrow> ''undefined'' | Some i \<Rightarrow> i)"

text \<open>
  The \<open>forEach\<close> of \<open>preencherEndereco\<close> over the keys still to visit. \<open>&&\<close> does not
  read \<open>dadosCep[campo]\<close> when no element was found.
\<close>

fun preencher_campos ::
  "jsval \<Rightarrow> (string \<times> string) list \<Rightarrow> string list \<Rightarrow> world \<Rightarrow> (js_error + unit) \<times> world" where
  "preencher_campos dadosCep camposFinais [] w = (Inr (), w)"
| "preencher_campos dadosCep camposFinais (campo # resto) w =
     (let alvo = alvo_of camposFinais campo
      in case getElementById w alvo of
           None \<Rightarrow> preencher_campos dadosCep camposFinais resto w
         | Some elemento \<Rightarrow>
             (case get_property dadosCep campo of
                Inl e \<Rightarrow> (Inl e, w)
              | Inr v \<Rightarrow>
                  if truthy v
                  then preencher_campos dadosCep camposFinais resto (assign_value alvo elemento v w)
                  else preencher_campos dadosCep camposFinais resto w))"

definition preencherEndereco ::
  "jsval \<Rightarrow> (string \<times> string) list \<Rightarrow> world \<Rightarrow> (js_error + unit) \<times> world" where
  "preencherEndereco dadosCep campos w =
     (let camposFinais = spread camposPadrao campos
      in preencher_campos dadosCep camposFinais (own_keys camposFinais) w)"

text \<open>
  \<open>mostrarErro\<close>: the element with id \<open>cep-erro\<close> is reused when the page has one;
  otherwise one is created, and put into the page only when the page has an element
  with id \<open>cep\<close>. The timer that hides the element is recorded, not run.
\<close>

definition mostrarErro :: "string \<Rightarrow> world \<Rightarrow> world" where
  "mostrarErro mensagem w =
     (let mostrado = (\<lambda>el. el\<lparr>el_textContent := mensagem, el_display := ''block''\<rparr>);
          w1 = (case getElementById w ''cep-erro'' of
                  Some elementoErro \<Rightarrow>
                    w\<lparr>document := (document w)(''cep-erro'' \<mapsto> mostrado elementoErro)\<rparr>
                | None \<Rightarrow>
                    (let elementoErro = createElement_div
                           \<lparr>el_className := ''alert alert-danger mt-2'', el_fontSize := ''0.875rem''\<rparr>
                     in case getElementById w ''cep'' of
                          Some campoCep \<Rightarrow>
                            w\<lparr>document := (document w)(''cep-erro'' \<mapsto> mostrado elementoErro)\<rparr>
                        | None \<Rightarrow> w))
      in emit (SetTimeout 5000) w1)"

text \<open>The \<open>catch\<close> block of \<open>buscarEPreencher\<close>, lines 103 to 112.\<close>

text \<open>
  \<open>callback && typeof callback.success === 'function'\<close>, and the same for \<open>error\<close>:
  the function to call, when there is one.
\<close>

definition success_function :: "callback option \<Rightarrow> (jsval \<Rightarrow> js_error option) option" where
  "success_function cb = (case cb of None \<Rightarrow> None | Some c \<Rightarrow> cb_success c)"

definition error_function :: "callback option \<Rightarrow> (js_error \<Rightarrow> js_error option) option" where
  "error_function cb = (case cb of None \<Rightarrow> None | Some c \<Rightarrow> cb_error c)"

definition buscarEPreencher_catch ::
  "callback option \<Rightarrow> js_error \<Rightarrow> world \<Rightarrow> (js_error + jsval) \<times> world" where
  "buscarEPreencher_catch cb error w =
     (case error_function cb of
        Some f \<Rightarrow>
          (let w1 = emit (CallError error) w
           in case f error of
                Some thrown \<Rightarrow> (Inl thrown, w1)
              | None \<Rightarrow> (Inl error, w1))
      | None \<Rightarrow> (Inl error, mostrarErro (message error) w))"

text \<open>The \<open>try\<close> block of \<open>buscarEPreencher\<close>, lines 92 to 101.\<close>

definition buscarEPreencher_try ::
  "network \<Rightarrow> string \<Rightarrow> (string \<times> string) list \<Rightarrow> callback option \<Rightarrow> world
     \<Rightarrow> (js_error + jsval) \<times> world" where
  "buscarEPreencher_try fetch cep campos cb w =
     (case buscarCep fetch cep w of
        (Inl e, w1) \<Rightarrow> (Inl e, w1)
      | (Inr dados, w1) \<Rightarrow>
          (case preencherEndereco dados campos w1 of
             (Inl e, w2) \<Rightarrow> (Inl e, w2)
           | (Inr u, w2) \<Rightarrow>
               (case success_function cb of
                  None \<Rightarrow> (Inr dados, w2)
                | Some f \<Rightarrow>
                    (let w3 = emit (CallSuccess dados) w2
                     in case f dados of
                          Some thrown \<Rightarrow> (Inl thrown, w3)
                        | None \<Rightarrow> (Inr dados, w3)))))"

definition buscarEPreencher ::
  "network \<Rightarrow> string \<Rightarrow> (string \<times> string) list \<Rightarrow> callback option \<Rightarrow> world
     \<Rightarrow> (js_error + jsval) \<times> world" where
  "buscarEPreencher fetch cep campos cb w =
     (case buscarEPreencher_try fetch cep campos cb w of
        (Inl error, w') \<Rightarrow> buscarEPreencher_catch cb error w'
      | (Inr dados, w') \<Rightarrow> (Inr dados, w'))"

text \<open>
  The shape \<open>DDDDD-DDD\<close> the specification speaks of: five digits, a hyphen, three
  digits.
\<close>

definition cep_formatado :: "string \<Rightarrow> bool" where
  "cep_formatado s =
     (length s = 9 \<and> list_all digit (take 5 s) \<and> s ! 5 = CHR ''-'' \<and> list_all digit (drop 6 s))"

subsection \<open>Reading the trace\<close>

text \<open>The events a call added to the trace: those of \<open>w'\<close> after those of \<open>w\<close>.\<close>

definition new_events :: "world \<Rightarrow> world \<Rightarrow> event list" where
  "new_events w w' = drop (length (trace w)) (trace w')"

fun is_SetValue :: "event \<Rightarrow> bool" where
  "is_SetValue (SetValue i v) = True"
| "is_SetValue ev = False"

fun is_CallError :: "event \<Rightarrow> bool" where
  "is_CallError (CallError e) = True"
| "is_CallError ev = False"

fun is_Fetch :: "event \<Rightarrow> bool" where
  "is_Fetch (Fetch url) = True"
| "is_Fetch ev = False"

text \<open>The value last assigned to the element with id \<open>i\<close> by a list of events, if any.\<close>

fun written :: "string \<Rightarrow> event list \<Rightarrow> jsval option" where
  "written i [] = None"
| "written i (ev # evs) =
     (case written i evs of
        Some v \<Rightarrow> Some v
      | None \<Rightarrow> (case ev of SetValue t v \<Rightarrow> if t = i then Some v else None | _ \<Rightarrow> None))"

text \<open>
  A page after a list of assignments: each element holds the value last assigned to it,
  and is otherwise as it was.
\<close>

definition after_writes :: "event list \<Rightarrow> (string \<rightharpoonup> element) \<Rightarrow> (string \<rightharpoonup> element)" where
  "after_writes evs doc =
     (\<lambda>i. map_option
            (\<lambda>el. case written i evs of None \<Rightarrow> el | Some v \<Rightarrow> el\<lparr>el_value := v\<rparr>)
            (doc i))"

section \<open>Properties\<close>

declare show_nat.simps [simp del]

subsection \<open>The trace and the page under one event\<close>

lemma new_events_append: "trace w' = trace w @ evs \<Longrightarrow> new_events w w' = evs"
  by (simp add: new_events_def)

lemma trace_emit: "trace (emit ev w) = trace w @ [ev]"
  by (simp add: emit_def)

lemma document_emit: "document (emit ev w) = document w"
  by (simp add: emit_def)

subsection \<open>The missing method\<close>

lemma validarCep_absent:
  "validarCep cep = Inl (TypeError ''this.validarCep is not a function'')"
  by (simp add: validarCep_def CepAPI_members_def)

lemma buscarCep_try_raises:
  "buscarCep_try fetch cep w = (Inl (TypeError ''this.validarCep is not a function''), w)"
  by (simp add: buscarCep_try_def validarCep_absent)

lemma buscarCep_raises:
  "buscarCep fetch cep w =
     (Inl (TypeError ''this.validarCep is not a function''),
      emit (ConsoleError ''Erro ao buscar CEP:''
             (TypeError ''this.validarCep is not a function'')) w)"
  by (simp add: buscarCep_def buscarCep_try_raises)

text \<open>
  C1. For every input string \<open>buscarCep\<close> throws before any request is made: the class
  has no member \<open>validarCep\<close>, the call of it throws a \<open>TypeError\<close>, the \<open>catch\<close> block
  logs that error and throws it again, and the trace gains the console entry and nothing
  else, so no \<open>Fetch\<close>.
\<close>

theorem buscarCep_always_TypeError_before_fetch:
  "''validarCep'' \<notin> set CepAPI_members
   \<and> fst (buscarCep fetch cep w) = Inl (TypeError ''this.validarCep is not a function'')
   \<and> document (snd (buscarCep fetch cep w)) = document w
   \<and> trace (snd (buscarCep fetch cep w)) =
       trace w @ [ConsoleError ''Erro ao buscar CEP:''
                    (TypeError ''this.validarCep is not a function'')]
   \<and> filter is_Fetch (new_events w (snd (buscarCep fetch cep w))) = []"
  by (simp add: buscarCep_raises document_emit trace_emit new_events_append [OF trace_emit]
      CepAPI_members_def)

text \<open>
  C2. The specification has \<open>validate\<close> answer true exactly when eight digits remain
  after the non-digits are removed. On the class the call throws for every argument,
  also for \<open>01310100\<close> and \<open>01310-100\<close>. (The text inside the comment would not remove
  anything either: it tests the argument as it is, so it rejects \<open>01310-100\<close>.)
\<close>

theorem validarCep_throws_on_valid_codes:
  "validarCep ''01310100'' = Inl (TypeError ''this.validarCep is not a function'')
   \<and> validarCep ''01310-100'' = Inl (TypeError ''this.validarCep is not a function'')
   \<and> validarCep_in_comment ''01310100''
   \<and> \<not> validarCep_in_comment ''01310-100''"
  by (simp add: validarCep_absent validarCep_in_comment_def test_8_digits_def digit_def)

text \<open>
  C3. For an input that does not leave eight digits, such as \<open>123\<close>, no request is made,
  but the error thrown is the \<open>TypeError\<close> of the missing method, not the error of
  line 20 that says the code must have eight digits.
\<close>

theorem buscarCep_123_not_the_validation_error:
  "fst (buscarCep fetch ''123'' w) = Inl (TypeError ''this.validarCep is not a function'')
   \<and> fst (buscarCep fetch ''123'' w) \<noteq> Inl (Error (''CEP deve ter 8 d'' @ [CHR 0xED] @ ''gitos''))
   \<and> trace (snd (buscarCep fetch ''123'' w)) =
       trace w @ [ConsoleError ''Erro ao buscar CEP:''
                    (TypeError ''this.validarCep is not a function'')]"
  by (simp add: buscarCep_raises emit_def)

text \<open>
  C4. With a service that answers 404, or 500, to every request, \<open>buscarCep\<close> of the
  eight-digit code \<open>01310100\<close> throws the \<open>TypeError\<close> of the missing method: neither
  the not-found error of line 28 nor \<open>Erro na API: 500\<close>, and the service is never asked.
\<close>

theorem buscarCep_404_500_not_reached:
  "fst (buscarCep (\<lambda>url. Fulfilled \<lparr>ok = False, status = 404, json = Inr JNull\<rparr>) ''01310100'' w)
     = Inl (TypeError ''this.validarCep is not a function'')
   \<and> fst (buscarCep (\<lambda>url. Fulfilled \<lparr>ok = False, status = 500, json = Inr JNull\<rparr>) ''01310100'' w)
     = Inl (TypeError ''this.validarCep is not a function'')
   \<and> ''Erro na API: '' @ show_nat 500 = ''Erro na API: 500''"
proof -
  have "show_nat 500 = ''500''" by code_simp
  then show ?thesis by (simp add: buscarCep_raises)
qed

text \<open>
  C5. With a service that answers 200 and the body of the specification's example,
  \<open>buscarCep\<close> of \<open>01310100\<close> does not return the decoded object: it throws the
  \<open>TypeError\<close> of the missing method.
\<close>

theorem buscarCep_200_not_returned:
  "fst (buscarCep
         (\<lambda>url. Fulfilled
            \<lparr>ok = True, status = 200,
             json = Inr (JObj [(''cep'', JStr ''01310-100''), (''state'', JStr ''SP''),
                               (''city'', JStr (''S'' @ [CHR 0xE3] @ ''o Paulo'')),
                               (''neighborhood'', JStr ''Bela Vista''),
                               (''street'', JStr ''Avenida Paulista'')])\<rparr>)
         ''01310100'' w)
     = Inl (TypeError ''this.validarCep is not a function'')"
  by (simp add: buscarCep_raises)

subsection \<open>Formatting\<close>

lemma replace_5_3_short: "length s < 8 \<Longrightarrow> replace_5_3 s = s"
  by (induction s) auto

lemma replace_5_3_digits:
  assumes "list_all digit s" "8 \<le> length s"
  shows "replace_5_3 s = take 5 s @ ''-'' @ drop 5 s"
proof (cases s)
  case Nil
  with assms show ?thesis by simp
next
  case (Cons c cs)
  have a: "list_all digit (take 8 s)"
    using assms(1) by (simp add: list_all_iff) (meson in_set_takeD)
  have "drop 8 s = drop 3 (drop 5 s)" by simp
  then have b: "take 3 (drop 5 s) @ drop 8 s = drop 5 s"
    by (simp only: append_take_drop_id)
  have "replace_5_3 s = take 5 s @ ''-'' @ take 3 (drop 5 s) @ drop 8 s"
    using a assms(2) unfolding Cons by (simp only: replace_5_3.simps if_True simp_thms)
  then show ?thesis by (simp only: b)
qed

lemma digits_remove_non_digits: "list_all digit (remove_non_digits s)"
  by (simp add: remove_non_digits_def list_all_iff)

lemma formatarCep_cases:
  "formatarCep cep =
     (if length (remove_non_digits cep) < 8 then remove_non_digits cep
      else take 5 (remove_non_digits cep) @ ''-'' @ drop 5 (remove_non_digits cep))"
  by (simp add: formatarCep_def replace_5_3_short replace_5_3_digits digits_remove_non_digits)

text \<open>
  C9 (as the code has it). \<open>formatarCep\<close> removes the non-digits. When exactly eight
  digits remain the result is \<open>DDDDD-DDD\<close>; when fewer than eight remain the result is
  the digits unchanged; when more than eight remain the result is the digits with a
  hyphen after the fifth, which is neither of the two. No error is thrown: the function
  is total.
\<close>

theorem formatarCep_by_digit_count:
  "(length (remove_non_digits cep) = 8 \<longrightarrow>
      cep_formatado (formatarCep cep)
      \<and> formatarCep cep = take 5 (remove_non_digits cep) @ ''-'' @ drop 5 (remove_non_digits cep))
   \<and> (length (remove_non_digits cep) < 8 \<longrightarrow> formatarCep cep = remove_non_digits cep)
   \<and> (8 < length (remove_non_digits cep) \<longrightarrow>
      formatarCep cep = take 5 (remove_non_digits cep) @ ''-'' @ drop 5 (remove_non_digits cep))"
proof -
  have "cep_formatado (take 5 d @ ''-'' @ drop 5 d)" if "length d = 8" "list_all digit d" for d
  proof -
    have "list_all digit (take 5 d)" "list_all digit (drop 5 d)"
      using that(2) by (auto simp: list_all_iff dest: in_set_takeD in_set_dropD)
    moreover have "(take 5 d @ ''-'' @ drop 5 d) ! 5 = CHR ''-''"
      using that(1) by (simp add: nth_append)
    moreover have "drop 6 (take 5 d @ ''-'' @ drop 5 d) = drop 5 d"
      using that(1) by simp
    ultimately show ?thesis
      using that(1) by (simp add: cep_formatado_def)
  qed
  then show ?thesis
    using digits_remove_non_digits [of cep] by (simp add: formatarCep_cases)
qed

theorem formatarCep_by_digit_count_witness:
  "length (remove_non_digits ''01310100'') = 8 \<and> formatarCep ''01310100'' = ''01310-100''
   \<and> cep_formatado (formatarCep ''01310100'')
   \<and> length (remove_non_digits ''123'') < 8 \<and> formatarCep ''123'' = ''123''
   \<and> 8 < length (remove_non_digits ''123456789'') \<and> formatarCep ''123456789'' = ''12345-6789''"
  using formatarCep_by_digit_count [of "''01310100''"] formatarCep_by_digit_count [of "''123''"]
    formatarCep_by_digit_count [of "''123456789''"]
  by (simp add: remove_non_digits_def digit_def cep_formatado_def)

text \<open>
  C9 as the specification states it fails at \<open>123456789\<close>: the result is neither of the
  shape \<open>DDDDD-DDD\<close> nor the digits unchanged.
\<close>

theorem formatarCep_nine_digits_counterexample:
  "\<not> (cep_formatado (formatarCep ''123456789'')
      \<or> formatarCep ''123456789'' = remove_non_digits ''123456789'')"
  by (simp add: formatarCep_def remove_non_digits_def digit_def cep_formatado_def)

text \<open>
  C10. When more than eight digits remain, \<open>formatarCep\<close> does not return them unchanged:
  a hyphen stands after the fifth digit and the other digits keep their place.
\<close>

theorem formatarCep_more_than_eight_digits:
  "8 < length (remove_non_digits cep) \<Longrightarrow>
     formatarCep cep = take 5 (remove_non_digits cep) @ ''-'' @ drop 5 (remove_non_digits cep)
     \<and> formatarCep cep \<noteq> remove_non_digits cep"
proof -
  assume a: "8 < length (remove_non_digits cep)"
  then have e: "formatarCep cep
      = take 5 (remove_non_digits cep) @ ''-'' @ drop 5 (remove_non_digits cep)"
    by (simp add: formatarCep_cases)
  have "length (formatarCep cep) = Suc (length (remove_non_digits cep))"
    using a unfolding e by simp
  then have "formatarCep cep \<noteq> remove_non_digits cep"
    by (metis n_not_Suc_n)
  with e show ?thesis by simp
qed

theorem formatarCep_more_than_eight_digits_witness:
  "8 < length (remove_non_digits ''123456789'')
   \<and> formatarCep ''123456789'' = ''12345-6789''
   \<and> formatarCep ''123456789'' \<noteq> remove_non_digits ''123456789''"
  using formatarCep_more_than_eight_digits [of "''123456789''"]
  by (simp add: remove_non_digits_def digit_def)

subsection \<open>Filling the form\<close>

lemma map_of_set_property: "map_of (set_property k v ps) = (map_of ps)(k \<mapsto> v)"
  by (induction ps) (auto simp: fun_eq_iff)

lemma map_of_copy_properties:
  "map_of (copy_properties b ks acc) k =
     (if k \<in> set ks \<and> map_of b k \<noteq> None then map_of b k else map_of acc k)"
  by (induction ks arbitrary: acc) (auto simp: map_of_set_property split: option.splits)

lemma set_own_keys: "set (own_keys ps) = fst ` set ps"
  by (auto simp: own_keys_def Let_def)

lemma mem_own_keys: "k \<in> set (own_keys ps) \<longleftrightarrow> map_of ps k \<noteq> None"
  by (simp add: set_own_keys map_of_eq_None_iff)

lemma map_of_spread: "map_of (spread a b) = map_of a ++ map_of b"
proof
  fix k
  have "map_of (copy_properties a (own_keys a) []) k = map_of a k"
    by (simp add: map_of_copy_properties mem_own_keys)
  then show "map_of (spread a b) k = (map_of a ++ map_of b) k"
    by (cases "map_of b k") (simp_all add: spread_def map_of_copy_properties mem_own_keys map_add_def)
qed

lemma getElementById_Some:
  "getElementById w i = Some el \<Longrightarrow> document w i = Some el \<and> i \<noteq> []"
  by (simp add: getElementById_def split: if_splits)

lemma getElementById_assign_value:
  "getElementById w a = Some el \<Longrightarrow>
     (getElementById (assign_value a el v w) t = None) = (getElementById w t = None)"
  by (auto simp: getElementById_def assign_value_def emit_def split: if_splits)

lemma trace_assign_value: "trace (assign_value a el v w) = trace w @ [SetValue a v]"
  by (simp add: assign_value_def emit_def)

lemma document_assign_value:
  "document (assign_value a el v w) = (document w)(a \<mapsto> el\<lparr>el_value := v\<rparr>)"
  by (simp add: assign_value_def emit_def)

text \<open>One round of the loop, by the three ways it can go on an object.\<close>

lemma preencher_campos_skip:
  "getElementById w (alvo_of final k) = None \<Longrightarrow>
     preencher_campos dados final (k # ks) w = preencher_campos dados final ks w"
  by simp

lemma preencher_campos_falsy:
  "get_property dados k = Inr v \<Longrightarrow> \<not> truthy v \<Longrightarrow>
     preencher_campos dados final (k # ks) w = preencher_campos dados final ks w"
  by (simp add: Let_def split: option.splits)

lemma preencher_campos_write:
  "getElementById w (alvo_of final k) = Some el \<Longrightarrow> get_property dados k = Inr v \<Longrightarrow> truthy v \<Longrightarrow>
     preencher_campos dados final (k # ks) w =
       preencher_campos dados final ks (assign_value (alvo_of final k) el v w)"
  by simp

lemma after_writes_Nil: "after_writes [] doc = doc"
  by (simp add: after_writes_def fun_eq_iff option.map_ident)

lemma after_writes_Cons:
  "doc a = Some el \<Longrightarrow>
     after_writes evs (doc(a \<mapsto> el\<lparr>el_value := v\<rparr>)) = after_writes (SetValue a v # evs) doc"
  by (auto simp: after_writes_def fun_eq_iff split: option.splits)

lemma preencher_campos_object:
  "\<exists>w' evs. preencher_campos (JObj ps) final ks w = (Inr (), w')
     \<and> trace w' = trace w @ evs
     \<and> list_all is_SetValue evs
     \<and> (\<forall>t v. SetValue t v \<in> set evs \<longleftrightarrow>
          (\<exists>k \<in> set ks. t = alvo_of final k \<and> getElementById w t \<noteq> None
             \<and> get_property (JObj ps) k = Inr v \<and> truthy v))
     \<and> document w' = after_writes evs (document w)"
proof (induction ks arbitrary: w)
  case Nil
  show ?case by (simp add: after_writes_Nil)
next
  case (Cons k ks)
  obtain x where gp: "get_property (JObj ps) k = Inr x" by simp
  show ?case
  proof (cases "getElementById w (alvo_of final k) \<noteq> None \<and> truthy x")
    case False
    then have step: "preencher_campos (JObj ps) final (k # ks) w = preencher_campos (JObj ps) final ks w"
      using preencher_campos_skip [of w final k "JObj ps" ks]
        preencher_campos_falsy [OF gp, of final ks w] by blast
    from Cons.IH [of w] obtain w' evs where
      ih: "preencher_campos (JObj ps) final ks w = (Inr (), w')" "trace w' = trace w @ evs"
        "list_all is_SetValue evs"
        "\<forall>t v. SetValue t v \<in> set evs \<longleftrightarrow>
          (\<exists>k \<in> set ks. t = alvo_of final k \<and> getElementById w t \<noteq> None
             \<and> get_property (JObj ps) k = Inr v \<and> truthy v)"
        "document w' = after_writes evs (document w)"
      by blast
    have "\<forall>t v. SetValue t v \<in> set evs \<longleftrightarrow>
          (\<exists>k \<in> set (k # ks). t = alvo_of final k \<and> getElementById w t \<noteq> None
             \<and> get_property (JObj ps) k = Inr v \<and> truthy v)"
      using ih(4) False gp by auto
    with ih(1,2,3,5) show ?thesis unfolding step by blast
  next
    case True
    then obtain el where el: "getElementById w (alvo_of final k) = Some el"
      and tr: "truthy x" by auto
    define w1 where "w1 = assign_value (alvo_of final k) el x w"
    have step: "preencher_campos (JObj ps) final (k # ks) w = preencher_campos (JObj ps) final ks w1"
      unfolding w1_def by (rule preencher_campos_write [OF el gp tr])
    have same: "\<And>t. (getElementById w1 t \<noteq> None) = (getElementById w t \<noteq> None)"
      unfolding w1_def using getElementById_assign_value [OF el] by simp
    from Cons.IH [of w1] obtain w' evs where
      ih: "preencher_campos (JObj ps) final ks w1 = (Inr (), w')" "trace w' = trace w1 @ evs"
        "list_all is_SetValue evs"
        "\<forall>t v. SetValue t v \<in> set evs \<longleftrightarrow>
          (\<exists>k \<in> set ks. t = alvo_of final k \<and> getElementById w1 t \<noteq> None
             \<and> get_property (JObj ps) k = Inr v \<and> truthy v)"
        "document w' = after_writes evs (document w1)"
      by blast
    let ?evs = "SetValue (alvo_of final k) x # evs"
    have t: "trace w' = trace w @ ?evs"
      using ih(2) by (simp add: w1_def trace_assign_value)
    have l: "list_all is_SetValue ?evs" using ih(3) by simp
    have s: "\<forall>t v. SetValue t v \<in> set ?evs \<longleftrightarrow>
          (\<exists>k \<in> set (k # ks). t = alvo_of final k \<and> getElementById w t \<noteq> None
             \<and> get_property (JObj ps) k = Inr v \<and> truthy v)"
      using ih(4) el tr gp unfolding same by auto
    have d: "document w' = after_writes ?evs (document w)"
      using ih(5) getElementById_Some [OF el]
      by (simp add: w1_def document_assign_value after_writes_Cons)
    from ih(1) t l s d show ?thesis unfolding step by blast
  qed
qed

lemma keys_of_spread:
  "(\<exists>k \<in> set (own_keys (spread a b)). t = alvo_of (spread a b) k \<and> P k)
     \<longleftrightarrow> (\<exists>k. (map_of a ++ map_of b) k = Some t \<and> P k)"
proof
  assume "\<exists>k \<in> set (own_keys (spread a b)). t = alvo_of (spread a b) k \<and> P k"
  then obtain k where k: "map_of (spread a b) k \<noteq> None" "t = alvo_of (spread a b) k" "P k"
    by (auto simp only: mem_own_keys)
  from k(1,2) have "map_of (spread a b) k = Some t"
    by (auto simp: alvo_of_def)
  then have "(map_of a ++ map_of b) k = Some t"
    by (simp only: map_of_spread)
  with k(3) show "\<exists>k. (map_of a ++ map_of b) k = Some t \<and> P k"
    by (intro exI [of _ k]) simp
next
  assume "\<exists>k. (map_of a ++ map_of b) k = Some t \<and> P k"
  then obtain k where k0: "(map_of a ++ map_of b) k = Some t" and k2: "P k"
    by (elim exE conjE)
  from k0 have k1: "map_of (spread a b) k = Some t"
    by (simp only: map_of_spread)
  from k1 have "k \<in> set (own_keys (spread a b))" "t = alvo_of (spread a b) k"
    by (simp_all add: mem_own_keys alvo_of_def)
  with k2 show "\<exists>k \<in> set (own_keys (spread a b)). t = alvo_of (spread a b) k \<and> P k"
    by (intro bexI [of _ k]) simp_all
qed

text \<open>
  A key of the caller's binding that the record has only by inheritance: with the binding
  \<open>{toString: 'cidade'}\<close> and the empty record, the function found under \<open>toString\<close>
  is truthy and is assigned to the element \<open>cidade\<close>.
\<close>

lemma preencherEndereco_inherited_key:
  "preencherEndereco (JObj []) [(''toString'', ''cidade'')]
       \<lparr>document = [''cidade'' \<mapsto> createElement_div], trace = []\<rparr>
     = (Inr (),
        \<lparr>document = [''cidade'' \<mapsto> createElement_div\<lparr>el_value := JInherited ''toString''\<rparr>],
         trace = [SetValue ''cidade'' (JInherited ''toString'')]\<rparr>)"
proof -
  have fin: "spread camposPadrao [(''toString'', ''cidade'')]
      = [(''cidade'', ''cidade''), (''bairro'', ''bairro''), (''rua'', ''rua''),
         (''estado'', ''estado''), (''cep'', ''cep''), (''toString'', ''cidade'')]"
    by (simp add: spread_def own_keys_def camposPadrao_def array_index_def digit_def)
  have keys: "own_keys [(''cidade'', ''cidade''), (''bairro'', ''bairro''), (''rua'', ''rua''),
         (''estado'', ''estado''), (''cep'', ''cep''), (''toString'', ''cidade'')]
      = [''cidade'', ''bairro'', ''rua'', ''estado'', ''cep'', ''toString'']"
    by (simp add: own_keys_def array_index_def digit_def)
  show ?thesis
    by (simp add: preencherEndereco_def Let_def fin keys alvo_of_def getElementById_def
        assign_value_def emit_def inherited_def Object_prototype_keys_def)
qed

text \<open>
  C7 (as the code has it). \<open>preencherEndereco\<close> merges the caller's binding over the
  default one (\<open>cidade\<close>, \<open>bairro\<close>, \<open>rua\<close>, \<open>estado\<close>, \<open>cep\<close>, each to the id of the same
  name). On a record that is an object it throws nothing, and what it adds to the trace
  are assignments only: the element with id \<open>t\<close> is assigned \<open>v\<close> exactly when some field
  \<open>k\<close> is bound to \<open>t\<close>, the page has an element with id \<open>t\<close>, and \<open>v\<close> is what the
  read of \<open>k\<close> on the record gives (its own property, or without one what it inherits
  under \<open>k\<close>) and is truthy. A field that is there but holds the empty string, \<open>null\<close>,
  \<open>false\<close> or \<open>0\<close> is passed over like a missing one. The page afterwards is the page
  before with each element holding the value last assigned to it.
\<close>

theorem preencherEndereco_writes_truthy_fields:
  "\<exists>w' evs. preencherEndereco (JObj ps) campos w = (Inr (), w')
     \<and> trace w' = trace w @ evs
     \<and> list_all is_SetValue evs
     \<and> (\<forall>t v. SetValue t v \<in> set evs \<longleftrightarrow>
          (\<exists>k. (map_of camposPadrao ++ map_of campos) k = Some t \<and> getElementById w t \<noteq> None
             \<and> get_property (JObj ps) k = Inr v \<and> truthy v))
     \<and> document w' = after_writes evs (document w)"
proof -
  let ?final = "spread camposPadrao campos"
  from preencher_campos_object [of ps ?final "own_keys ?final" w] obtain w' evs where
    "preencher_campos (JObj ps) ?final (own_keys ?final) w = (Inr (), w')"
    "trace w' = trace w @ evs" "list_all is_SetValue evs"
    "\<forall>t v. SetValue t v \<in> set evs \<longleftrightarrow>
          (\<exists>k \<in> set (own_keys ?final). t = alvo_of ?final k \<and> getElementById w t \<noteq> None
             \<and> get_property (JObj ps) k = Inr v \<and> truthy v)"
    "document w' = after_writes evs (document w)"
    by blast
  then show ?thesis
    unfolding keys_of_spread by (simp add: preencherEndereco_def Let_def)
qed

theorem preencherEndereco_writes_truthy_fields_witness:
  "fst (preencherEndereco (JObj [(''cidade'', JStr (''S'' @ [CHR 0xE3] @ ''o Paulo''))])
         [(''cidade'', ''city-input'')]
         \<lparr>document = [''city-input'' \<mapsto> createElement_div], trace = []\<rparr>) = Inr ()
   \<and> trace (snd (preencherEndereco (JObj [(''cidade'', JStr (''S'' @ [CHR 0xE3] @ ''o Paulo''))])
         [(''cidade'', ''city-input'')]
         \<lparr>document = [''city-input'' \<mapsto> createElement_div], trace = []\<rparr>))
       = [SetValue ''city-input'' (JStr (''S'' @ [CHR 0xE3] @ ''o Paulo''))]
   \<and> map_option el_value
        (document (snd (preencherEndereco (JObj [(''cidade'', JStr (''S'' @ [CHR 0xE3] @ ''o Paulo''))])
           [(''cidade'', ''city-input'')]
           \<lparr>document = [''city-input'' \<mapsto> createElement_div], trace = []\<rparr>)) ''city-input'')
       = Some (JStr (''S'' @ [CHR 0xE3] @ ''o Paulo''))
   \<and> preencherEndereco (JObj [(''cidade'', JStr (''S'' @ [CHR 0xE3] @ ''o Paulo''))])
         [(''cidade'', ''city-input'')] \<lparr>document = Map.empty, trace = []\<rparr>
       = (Inr (), \<lparr>document = Map.empty, trace = []\<rparr>)"
proof -
  let ?r = "JObj [(''cidade'', JStr (''S'' @ [CHR 0xE3] @ ''o Paulo''))]"
  let ?b = "[(''cidade'', ''city-input'')]"
  let ?w = "\<lparr>document = [''city-input'' \<mapsto> createElement_div], trace = []\<rparr>"
  from preencherEndereco_writes_truthy_fields [of "[(''cidade'', JStr (''S'' @ [CHR 0xE3] @ ''o Paulo''))]" ?b ?w]
  obtain w' where "preencherEndereco ?r ?b ?w = (Inr (), w')" by blast
  then have a: "fst (preencherEndereco ?r ?b ?w) = Inr ()" by simp
  have keys: "own_keys [(''cidade'', ''city-input''), (''bairro'', ''bairro''),
      (''rua'', ''rua''), (''estado'', ''estado''), (''cep'', ''cep'')]
      = [''cidade'', ''bairro'', ''rua'', ''estado'', ''cep'']"
    by (simp add: own_keys_def array_index_def digit_def)
  have fin: "spread camposPadrao ?b = [(''cidade'', ''city-input''), (''bairro'', ''bairro''),
      (''rua'', ''rua''), (''estado'', ''estado''), (''cep'', ''cep'')]"
    by (simp add: spread_def own_keys_def camposPadrao_def array_index_def digit_def)
  have b: "preencherEndereco ?r ?b ?w =
      (Inr (), \<lparr>document = [''city-input'' \<mapsto> createElement_div\<lparr>el_value := JStr (''S'' @ [CHR 0xE3] @ ''o Paulo'')\<rparr>],
                trace = [SetValue ''city-input'' (JStr (''S'' @ [CHR 0xE3] @ ''o Paulo''))]\<rparr>)"
    by (simp add: preencherEndereco_def Let_def fin keys alvo_of_def getElementById_def
        assign_value_def emit_def)
  have c: "preencherEndereco ?r ?b \<lparr>document = Map.empty, trace = []\<rparr>
       = (Inr (), \<lparr>document = Map.empty, trace = []\<rparr>)"
    by (simp add: preencherEndereco_def Let_def fin keys alvo_of_def getElementById_def)
  from a b c show ?thesis by simp
qed

text \<open>
  C7 as the specification states it fails on a field that is present and empty: the
  page has the element, the record has the field, and nothing is assigned.
\<close>

theorem preencherEndereco_empty_string_counterexample:
  "getElementById \<lparr>document = [''cidade'' \<mapsto> createElement_div\<lparr>el_value := JStr ''antes''\<rparr>], trace = []\<rparr>
       ''cidade'' \<noteq> None
   \<and> map_of [(''cidade'', JStr [])] ''cidade'' = Some (JStr [])
   \<and> preencherEndereco (JObj [(''cidade'', JStr [])]) []
        \<lparr>document = [''cidade'' \<mapsto> createElement_div\<lparr>el_value := JStr ''antes''\<rparr>], trace = []\<rparr>
      = (Inr (), \<lparr>document = [''cidade'' \<mapsto> createElement_div\<lparr>el_value := JStr ''antes''\<rparr>], trace = []\<rparr>)
   \<and> JStr ''antes'' \<noteq> JStr []"
proof -
  have keys: "own_keys [(''cidade'', ''cidade''), (''bairro'', ''bairro''),
      (''rua'', ''rua''), (''estado'', ''estado''), (''cep'', ''cep'')]
      = [''cidade'', ''bairro'', ''rua'', ''estado'', ''cep'']"
    by (simp add: own_keys_def array_index_def digit_def)
  have fin: "spread camposPadrao [] = [(''cidade'', ''cidade''), (''bairro'', ''bairro''),
      (''rua'', ''rua''), (''estado'', ''estado''), (''cep'', ''cep'')]"
    by (simp add: spread_def own_keys_def camposPadrao_def array_index_def digit_def)
  show ?thesis
    by (simp add: preencherEndereco_def Let_def fin keys alvo_of_def getElementById_def)
qed

subsection \<open>Looking up and filling\<close>

lemma buscarEPreencher_try_raises:
  "buscarEPreencher_try fetch cep campos cb w =
     (Inl (TypeError ''this.validarCep is not a function''),
      emit (ConsoleError ''Erro ao buscar CEP:''
             (TypeError ''this.validarCep is not a function'')) w)"
  by (simp add: buscarEPreencher_try_def buscarCep_raises)

lemma trace_mostrarErro: "trace (mostrarErro m w) = trace w @ [SetTimeout 5000]"
  by (simp add: mostrarErro_def Let_def trace_emit split: option.splits)

lemma document_mostrarErro_value:
  "document w i = Some el \<Longrightarrow>
     map_option el_value (document (mostrarErro m w) i) = Some (el_value el)"
  by (auto simp: mostrarErro_def Let_def document_emit getElementById_def split: option.splits)

lemma buscarEPreencher_with_handler:
  "buscarEPreencher_try fetch cep campos cb w = (Inl e, w1) \<Longrightarrow> error_function cb = Some f \<Longrightarrow>
     buscarEPreencher fetch cep campos cb w =
       (Inl (case f e of None \<Rightarrow> e | Some thrown \<Rightarrow> thrown), emit (CallError e) w1)"
  by (simp add: buscarEPreencher_def buscarEPreencher_catch_def Let_def split: option.splits)

lemma buscarEPreencher_without_handler:
  "buscarEPreencher_try fetch cep campos cb w = (Inl e, w1) \<Longrightarrow> error_function cb = None \<Longrightarrow>
     buscarEPreencher fetch cep campos cb w = (Inl e, mostrarErro (message e) w1)"
  by (simp add: buscarEPreencher_def buscarEPreencher_catch_def)

text \<open>
  C6. A call of \<open>buscarCep\<close> that fails leaves the page as it was and assigns no
  \<open>value\<close>. A call of \<open>buscarEPreencher\<close> that fails assigns no \<open>value\<close> either, and
  every element of the page keeps the value it had: the lookup fails before
  \<open>preencherEndereco\<close> is reached, and the \<open>catch\<close> block touches at most the text and
  the visibility of the error element.
\<close>

theorem failing_calls_write_no_field:
  "(fst (buscarCep fetch cep w) = Inl e \<longrightarrow>
      document (snd (buscarCep fetch cep w)) = document w
      \<and> filter is_SetValue (new_events w (snd (buscarCep fetch cep w))) = [])
   \<and> (fst (buscarEPreencher fetch cep campos cb w) = Inl e' \<longrightarrow>
      (\<forall>i el. document w i = Some el \<longrightarrow>
         map_option el_value (document (snd (buscarEPreencher fetch cep campos cb w)) i)
           = Some (el_value el))
      \<and> filter is_SetValue (new_events w (snd (buscarEPreencher fetch cep campos cb w))) = [])"
proof -
  let ?E = "TypeError ''this.validarCep is not a function''"
  let ?w1 = "emit (ConsoleError ''Erro ao buscar CEP:'' ?E) w"
  have t: "buscarEPreencher_try fetch cep campos cb w = (Inl ?E, ?w1)"
    by (rule buscarEPreencher_try_raises)
  have a: "document (snd (buscarCep fetch cep w)) = document w
      \<and> filter is_SetValue (new_events w (snd (buscarCep fetch cep w))) = []"
    by (simp add: buscarCep_raises document_emit new_events_append [OF trace_emit])
  have b: "(\<forall>i el. document w i = Some el \<longrightarrow>
         map_option el_value (document (snd (buscarEPreencher fetch cep campos cb w)) i)
           = Some (el_value el))
      \<and> filter is_SetValue (new_events w (snd (buscarEPreencher fetch cep campos cb w))) = []"
  proof (cases "error_function cb")
    case None
    have "trace (mostrarErro m ?w1)
        = trace w @ [ConsoleError ''Erro ao buscar CEP:'' ?E, SetTimeout 5000]" for m
      by (simp add: trace_mostrarErro trace_emit)
    then have ne: "new_events w (mostrarErro m ?w1)
        = [ConsoleError ''Erro ao buscar CEP:'' ?E, SetTimeout 5000]" for m
      by (rule new_events_append)
    have "map_option el_value (document (mostrarErro m ?w1) i) = Some (el_value el)"
      if "document w i = Some el" for i el m
      using that by (intro document_mostrarErro_value) (simp add: document_emit)
    then show ?thesis
      unfolding buscarEPreencher_without_handler [OF t None]
      by (simp add: ne)
  next
    case (Some f)
    have tr: "trace (emit (CallError ?E) ?w1)
        = trace w @ [ConsoleError ''Erro ao buscar CEP:'' ?E, CallError ?E]"
      by (simp add: trace_emit)
    show ?thesis
      unfolding buscarEPreencher_with_handler [OF t Some]
      by (simp add: new_events_append [OF tr] document_emit)
  qed
  from a b show ?thesis by blast
qed

theorem failing_calls_write_no_field_witness:
  "fst (buscarCep (\<lambda>url. Fulfilled \<lparr>ok = False, status = 404, json = Inr JNull\<rparr>) ''00000000''
         \<lparr>document = [''cidade'' \<mapsto> createElement_div\<lparr>el_value := JStr ''antes''\<rparr>], trace = []\<rparr>)
     = Inl (TypeError ''this.validarCep is not a function'')
   \<and> fst (buscarEPreencher (\<lambda>url. Fulfilled \<lparr>ok = False, status = 404, json = Inr JNull\<rparr>) ''00000000''
         [] None
         \<lparr>document = [''cidade'' \<mapsto> createElement_div\<lparr>el_value := JStr ''antes''\<rparr>], trace = []\<rparr>)
     = Inl (TypeError ''this.validarCep is not a function'')
   \<and> map_option el_value (document (snd (buscarEPreencher
         (\<lambda>url. Fulfilled \<lparr>ok = False, status = 404, json = Inr JNull\<rparr>) ''00000000'' [] None
         \<lparr>document = [''cidade'' \<mapsto> createElement_div\<lparr>el_value := JStr ''antes''\<rparr>], trace = []\<rparr>))
         ''cidade'')
     = Some (JStr ''antes'')
   \<and> filter is_SetValue (new_events
         \<lparr>document = [''cidade'' \<mapsto> createElement_div\<lparr>el_value := JStr ''antes''\<rparr>], trace = []\<rparr>
         (snd (buscarEPreencher
         (\<lambda>url. Fulfilled \<lparr>ok = False, status = 404, json = Inr JNull\<rparr>) ''00000000'' [] None
         \<lparr>document = [''cidade'' \<mapsto> createElement_div\<lparr>el_value := JStr ''antes''\<rparr>], trace = []\<rparr>)))
     = []"
proof -
  let ?f = "\<lambda>url::string. Fulfilled \<lparr>ok = False, status = 404, json = Inr JNull\<rparr>"
  let ?w = "\<lparr>document = [''cidade'' \<mapsto> createElement_div\<lparr>el_value := JStr ''antes''\<rparr>], trace = []\<rparr>"
  let ?E = "TypeError ''this.validarCep is not a function''"
  have a: "fst (buscarCep ?f ''00000000'' ?w) = Inl ?E"
    by (simp add: buscarCep_raises)
  have b: "fst (buscarEPreencher ?f ''00000000'' [] None ?w) = Inl ?E"
    by (simp add: buscarEPreencher_def buscarEPreencher_try_raises buscarEPreencher_catch_def
        error_function_def)
  have c: "document ?w ''cidade'' = Some (createElement_div\<lparr>el_value := JStr ''antes''\<rparr>)"
    by simp
  let ?w' = "snd (buscarEPreencher ?f ''00000000'' [] None ?w)"
  from failing_calls_write_no_field [of ?f "''00000000''" ?w ?E "[]" None ?E] b
  have d: "\<forall>i el. document ?w i = Some el \<longrightarrow>
        map_option el_value (document ?w' i) = Some (el_value el)"
    and e: "filter is_SetValue (new_events ?w ?w') = []"
    by blast+
  from d c have "map_option el_value (document ?w' ''cidade'')
      = Some (el_value (createElement_div\<lparr>el_value := JStr ''antes''\<rparr>))"
    by blast
  then have "map_option el_value (document ?w' ''cidade'') = Some (JStr ''antes'')"
    by simp
  with a b e show ?thesis by blast
qed

text \<open>
  C8 (as the code has it). Let the \<open>try\<close> block of \<open>buscarEPreencher\<close> fail with error
  \<open>e\<close> in state \<open>w1\<close>. With an \<open>error\<close> function in the callback, the function is called
  once, with \<open>e\<close>; nothing else happens to the state, so the error element is neither
  created nor shown; and the call throws \<open>e\<close> when the function returns, or what the
  function threw when it throws. Without such a function the call is
  \<open>mostrarErro(e.message)\<close> and then throws \<open>e\<close>.
\<close>

theorem buscarEPreencher_failure_handling:
  assumes "buscarEPreencher_try fetch cep campos cb w = (Inl e, w1)"
  shows "(\<forall>f. error_function cb = Some f \<longrightarrow>
            (\<exists>w'. buscarEPreencher fetch cep campos cb w
                     = (Inl (case f e of None \<Rightarrow> e | Some thrown \<Rightarrow> thrown), w')
               \<and> filter is_CallError (new_events w w') = [CallError e]
               \<and> trace w' = trace w1 @ [CallError e]
               \<and> document w' = document w1))
         \<and> (error_function cb = None \<longrightarrow>
              buscarEPreencher fetch cep campos cb w = (Inl e, mostrarErro (message e) w1))
         \<and> document w1 = document w"
proof -
  let ?E = "TypeError ''this.validarCep is not a function''"
  have w1: "e = ?E" "w1 = emit (ConsoleError ''Erro ao buscar CEP:'' ?E) w"
    using assms by (auto simp: buscarEPreencher_try_raises)
  have "trace (emit (CallError e) w1) = trace w @ [ConsoleError ''Erro ao buscar CEP:'' ?E, CallError e]"
    by (simp add: w1(2) trace_emit)
  then have "filter is_CallError (new_events w (emit (CallError e) w1)) = [CallError e]"
    by (simp add: new_events_append)
  then show ?thesis
    using buscarEPreencher_with_handler [OF assms] buscarEPreencher_without_handler [OF assms]
    by (auto simp: trace_emit document_emit w1(2))
qed

theorem buscarEPreencher_failure_handling_witness:
  "buscarEPreencher_try (\<lambda>url. Rejected (TypeError ''Failed to fetch'')) ''123'' []
       (Some \<lparr>cb_success = None, cb_error = Some (\<lambda>e. None)\<rparr>)
       \<lparr>document = Map.empty, trace = []\<rparr>
     = (Inl (TypeError ''this.validarCep is not a function''),
        \<lparr>document = Map.empty,
         trace = [ConsoleError ''Erro ao buscar CEP:''
                    (TypeError ''this.validarCep is not a function'')]\<rparr>)
   \<and> buscarEPreencher (\<lambda>url. Rejected (TypeError ''Failed to fetch'')) ''123'' []
       (Some \<lparr>cb_success = None, cb_error = Some (\<lambda>e. None)\<rparr>)
       \<lparr>document = Map.empty, trace = []\<rparr>
     = (Inl (TypeError ''this.validarCep is not a function''),
        \<lparr>document = Map.empty,
         trace = [ConsoleError ''Erro ao buscar CEP:''
                    (TypeError ''this.validarCep is not a function''),
                  CallError (TypeError ''this.validarCep is not a function'')]\<rparr>)"
proof -
  let ?f = "\<lambda>url::string. Rejected (TypeError ''Failed to fetch'')"
  let ?cb = "Some \<lparr>cb_success = None, cb_error = Some (\<lambda>e::js_error. None::js_error option)\<rparr>"
  let ?w = "\<lparr>document = Map.empty, trace = []\<rparr>"
  let ?E = "TypeError ''this.validarCep is not a function''"
  let ?w1 = "\<lparr>document = Map.empty, trace = [ConsoleError ''Erro ao buscar CEP:'' ?E]\<rparr>"
  have t: "buscarEPreencher_try ?f ''123'' [] ?cb ?w = (Inl ?E, ?w1)"
    by (simp add: buscarEPreencher_try_raises emit_def)
  have h: "error_function ?cb = Some (\<lambda>e. None)"
    by (simp add: error_function_def)
  from buscarEPreencher_failure_handling [OF t] h
  obtain w' where r: "buscarEPreencher ?f ''123'' [] ?cb ?w = (Inl ?E, w')"
    and tr: "trace w' = trace ?w1 @ [CallError ?E]" and d: "document w' = document ?w1"
    by auto
  from tr d have "w' = \<lparr>document = Map.empty, trace = [ConsoleError ''Erro ao buscar CEP:'' ?E, CallError ?E]\<rparr>"
    by (cases w') simp
  with t r show ?thesis by simp
qed

text \<open>
  C8 as the specification states it fails when the \<open>error\<close> function itself throws:
  the caller then sees what the function threw, not the error of the lookup.
\<close>

theorem buscarEPreencher_throwing_handler_counterexample:
  "fst (buscarEPreencher_try (\<lambda>url. Rejected (TypeError ''Failed to fetch'')) ''123'' []
       (Some \<lparr>cb_success = None, cb_error = Some (\<lambda>e. Some (Error ''handler failed''))\<rparr>)
       \<lparr>document = Map.empty, trace = []\<rparr>)
     = Inl (TypeError ''this.validarCep is not a function'')
   \<and> fst (buscarEPreencher (\<lambda>url. Rejected (TypeError ''Failed to fetch'')) ''123'' []
       (Some \<lparr>cb_success = None, cb_error = Some (\<lambda>e. Some (Error ''handler failed''))\<rparr>)
       \<lparr>document = Map.empty, trace = []\<rparr>)
     = Inl (Error ''handler failed'')
   \<and> Error ''handler failed'' \<noteq> TypeError ''this.validarCep is not a function''"
  by (simp add: buscarEPreencher_def buscarEPreencher_try_raises buscarEPreencher_catch_def
      error_function_def)

end
